theory Spec2Isabelle
  imports Complex_Main
begin

section \<open>Data model of the mood journal (src/App.tsx)\<close>

text \<open>
  The interfaces \<^verbatim>\<open>MoodEntry\<close>, \<^verbatim>\<open>WeeklySummary\<close> and \<^verbatim>\<open>PatternInsight\<close> of App.tsx.
  Instants are milliseconds since the epoch (\<^verbatim>\<open>Date.now()\<close>, \<^verbatim>\<open>getTime()\<close>), modelled as
  \<^typ>\<open>int\<close>; a JavaScript \<^verbatim>\<open>number\<close> that is not an instant is a \<^typ>\<open>real\<close>;
  a \<^verbatim>\<open>Record<string, number>\<close> is the list of its own properties in creation order.
  The fields \<^verbatim>\<open>id\<close> and \<^verbatim>\<open>text\<close> are written \<open>entry_id\<close> and \<open>entry_text\<close>.
\<close>

datatype input_method = Text | Voice | Photo

record MoodEntry =
  entry_id :: string
  timestamp :: int
  entry_text :: string
  mood :: string
  confidence :: real
  content :: "string option"
  inputMethod :: input_method

record WeeklySummary =
  weekStart :: int
  weekEnd :: int
  entries :: "MoodEntry list"
  dominantMood :: string
  moodDistribution :: "(string \<times> nat) list"
  averageConfidence :: real
  insights :: "string list"
  recommendations :: "string list"

record PatternInsight =
  pattern :: string
  frequency :: real
  description :: string
  recommendation :: string
  timeframe :: string

section \<open>Calendar\<close>

text \<open>
  \<^verbatim>\<open>getDay\<close>, \<^verbatim>\<open>getDate\<close> and \<^verbatim>\<open>setDate\<close> of a JavaScript \<^verbatim>\<open>Date\<close> work in local
  time. The local zone is a fixed offset \<open>tz\<close> (milliseconds east of UTC, no daylight
  saving). 1 January 1970 was a Thursday, day 4 of \<^verbatim>\<open>getDay\<close>, whose day 0 is Sunday.
\<close>

definition msPerDay :: int where
  "msPerDay = 24 * 60 * 60 * 1000"

definition getDay :: "int \<Rightarrow> int \<Rightarrow> int" where
  "getDay tz t = ((t + tz) div msPerDay + 4) mod 7"

text \<open>
  \<^verbatim>\<open>getWeekStart\<close>: \<^verbatim>\<open>d.setDate(d.getDate() - day)\<close> moves the date \<open>day\<close> calendar days
  back and leaves the local time of day as it is; \<^verbatim>\<open>setDate\<close> returns the new instant.
\<close>

definition getWeekStart :: "int \<Rightarrow> int \<Rightarrow> int" where
  "getWeekStart tz date = (let day = getDay tz date in date - day * msPerDay)"

text \<open>
  The week start in the words of the specification, for comparison with
  \<^const>\<open>getWeekStart\<close>: the most recent Sunday at local midnight.
\<close>

definition sundayMidnight_spec :: "int \<Rightarrow> int \<Rightarrow> int" where
  "sundayMidnight_spec tz t = t - (t + tz) mod msPerDay - getDay tz t * msPerDay"

section \<open>The language-model gateway\<close>

text \<open>
  \<^verbatim>\<open>await spark.llm(...)\<close> either rejects or resolves with a body, and
  \<^verbatim>\<open>JSON.parse\<close> of the body either throws, or yields \<^verbatim>\<open>null\<close>, or yields a value.
  A value is taken at the type the code gives it: an object with a string \<^verbatim>\<open>mood\<close> and
  a numeric \<^verbatim>\<open>confidence\<close> for the classification, an object with two string arrays for
  the weekly summary, an array of insights or something that is no array for the
  pattern insights.
\<close>

datatype 'a gateway = Rejected | Resolved 'a

datatype 'a parsed = SyntaxError | JsonNull | JsonValue 'a

record analysis =
  analysis_mood :: string
  analysis_confidence :: real

record summary_analysis =
  analysis_insights :: "string list"
  analysis_recommendations :: "string list"

datatype insights_json = InsightArray "PatternInsight list" | NotArray

section \<open>Application state\<close>

text \<open>
  The state hooks of \<^verbatim>\<open>App\<close> that the journal logic reads or writes, and the two
  output channels of the handlers: the toasts shown and the lines written by
  \<^verbatim>\<open>console.error\<close>, oldest first.
\<close>

datatype toast = ToastError string | ToastSuccess string | ToastMoodDetected string real

record app_state =
  moodHistory :: "MoodEntry list"
  weeklySummaries :: "WeeklySummary list"
  currentInput :: string
  isAnalyzing :: bool
  currentMood :: "MoodEntry option"
  patternInsights :: "PatternInsight list"
  isGeneratingInsights :: bool
  toasts :: "toast list"
  consoleErrors :: "string list"

definition initialState :: app_state where
  "initialState =
     \<lparr>moodHistory = [], weeklySummaries = [], currentInput = [], isAnalyzing = False,
      currentMood = None, patternInsights = [], isGeneratingInsights = False,
      toasts = [], consoleErrors = []\<rparr>"

section \<open>Entry store\<close>

text \<open>
  The updater that \<^verbatim>\<open>analyzeMood\<close> hands to \<^verbatim>\<open>setMoodHistory\<close>:
  \<^verbatim>\<open>current => [moodEntry, ...current].slice(0, 50)\<close>.
\<close>

definition appendEntry :: "MoodEntry \<Rightarrow> MoodEntry list \<Rightarrow> MoodEntry list" where
  "appendEntry moodEntry current = take 50 (moodEntry # current)"

text \<open>A sequence of appends, the first element of the list appended first.\<close>

definition appendAll :: "MoodEntry list \<Rightarrow> MoodEntry list \<Rightarrow> MoodEntry list" where
  "appendAll new current = foldl (\<lambda>h e. appendEntry e h) current new"

section \<open>Aggregation\<close>

datatype trend = Positive | Concerning | Mixed

text \<open>\<^verbatim>\<open>getMoodTrend\<close>; the JavaScript \<^verbatim>\<open>null\<close> is \<open>None\<close>.\<close>

definition getMoodTrend :: "MoodEntry list \<Rightarrow> trend option" where
  "getMoodTrend history =
     (if length history < 2 then None
      else
        let recent = take 5 history;
            positiveCount = length (filter (\<lambda>entry.
              mood entry \<in> set [''happy'', ''excited'', ''calm'', ''motivated'']) recent)
        in Some (if positiveCount \<ge> 3 then Positive
                 else if positiveCount \<le> 1 then Concerning else Mixed))"

text \<open>
  The \<^verbatim>\<open>reduce\<close> that counts moods: \<^verbatim>\<open>acc[entry.mood] = (acc[entry.mood] || 0) + 1\<close>.
  A new key is created after the existing ones, an existing key keeps its place.
  (A mood that names a member inherited from \<^verbatim>\<open>Object.prototype\<close>, such as
  \<^verbatim>\<open>constructor\<close>, reads that member instead of a count; such labels are outside this
  model.)
\<close>

fun bump :: "string \<Rightarrow> (string \<times> nat) list \<Rightarrow> (string \<times> nat) list" where
  "bump k [] = [(k, 1)]"
| "bump k ((k', c) # acc) = (if k' = k then (k', c + 1) # acc else (k', c) # bump k acc)"

definition frequencyOf :: "MoodEntry list \<Rightarrow> (string \<times> nat) list" where
  "frequencyOf es = foldl (\<lambda>acc entry. bump (mood entry) acc) [] es"

text \<open>
  \<^verbatim>\<open>Object.entries\<close> lists the keys that are array indices first, in ascending numeric
  order, and then the other string keys in creation order. An array index is the
  canonical decimal numeral of an integer from 0 to \<open>2\<^sup>3\<^sup>2 - 2\<close>.
\<close>

definition isDigit :: "char \<Rightarrow> bool" where
  "isDigit c = (48 \<le> (of_char c :: nat) \<and> (of_char c :: nat) \<le> 57)"

definition decimalValue :: "string \<Rightarrow> nat" where
  "decimalValue s = foldl (\<lambda>n c. 10 * n + (of_char c - 48)) 0 s"

definition isArrayIndex :: "string \<Rightarrow> bool" where
  "isArrayIndex s =
     (s \<noteq> [] \<and> list_all isDigit s \<and> (length s = 1 \<or> hd s \<noteq> CHR ''0'')
      \<and> decimalValue s < 4294967295)"

definition objectEntries :: "(string \<times> nat) list \<Rightarrow> (string \<times> nat) list" where
  "objectEntries obj =
     sort_key (\<lambda>p. decimalValue (fst p)) (filter (\<lambda>p. isArrayIndex (fst p)) obj)
     @ filter (\<lambda>p. \<not> isArrayIndex (fst p)) obj"

text \<open>
  \<^verbatim>\<open>Object.entries(moodDistribution).sort((a, b) => b[1] - a[1])[0][0]\<close>. The sort is
  stable (ECMAScript 2019), as \<^const>\<open>sort_key\<close> is; indexing the first element of an
  empty array throws, which is \<open>None\<close> here.
\<close>

definition computeDominantMood :: "(string \<times> nat) list \<Rightarrow> string option" where
  "computeDominantMood distribution =
     (case sort_key (\<lambda>p. - int (snd p)) (objectEntries distribution) of
        [] \<Rightarrow> None
      | p # _ \<Rightarrow> Some (fst p))"

section \<open>Strings\<close>

text \<open>
  \<^verbatim>\<open>Date.now().toString()\<close> is the decimal numeral of the instant.
  \<^verbatim>\<open>!input.trim()\<close> holds when the input has white space only; a \<^typ>\<open>string\<close> is a
  list of 8-bit characters, so the white space is that of ASCII.
\<close>

fun digitsOf :: "nat \<Rightarrow> string" where
  "digitsOf n =
     (if n < 10 then [''0123456789'' ! n]
      else digitsOf (n div 10) @ [''0123456789'' ! (n mod 10)])"

declare digitsOf.simps [simp del]

definition toString :: "int \<Rightarrow> string" where
  "toString n = (if n < 0 then CHR ''-'' # digitsOf (nat (- n)) else digitsOf (nat n))"

definition isWhiteSpace :: "char \<Rightarrow> bool" where
  "isWhiteSpace c = ((of_char c :: nat) \<in> set [9, 10, 11, 12, 13, 32])"

definition isBlank :: "string \<Rightarrow> bool" where
  "isBlank input = list_all isWhiteSpace input"

section \<open>Handlers\<close>

text \<open>
  An \<^verbatim>\<open>async\<close> handler runs up to its \<^verbatim>\<open>await\<close> when it is called and runs its
  continuation when the gateway answers. Each handler is a \<open>_begin\<close> function for the
  first part and a \<open>_complete\<close> function for the continuation, which takes the values
  the closure captured and works on the state as it is when the answer arrives (the
  setters are called with updater functions).
\<close>

datatype 'a started = Returned | Thrown | Awaiting 'a

subsection \<open>\<^verbatim>\<open>analyzeMood\<close>\<close>

definition analyzeMood_begin :: "string \<Rightarrow> app_state \<Rightarrow> unit started \<times> app_state" where
  "analyzeMood_begin input s =
     (if isBlank input
      then (Returned, s\<lparr>toasts := toasts s @ [ToastError ''Please enter some text to analyze'']\<rparr>)
      else (Awaiting (), s\<lparr>isAnalyzing := True\<rparr>))"

definition analyzeMood_complete ::
  "string \<Rightarrow> input_method \<Rightarrow> int \<Rightarrow> int \<Rightarrow> analysis parsed gateway \<Rightarrow> app_state \<Rightarrow> app_state" where
  "analyzeMood_complete input method idNow tsNow reply s =
     (case reply of
        Resolved (JsonValue analysis) \<Rightarrow>
          let moodEntry =
                \<lparr>entry_id = toString idNow, timestamp = tsNow, entry_text = input,
                 mood = analysis_mood analysis, confidence = analysis_confidence analysis,
                 content = None, inputMethod = method\<rparr>
          in s\<lparr>currentMood := Some moodEntry,
               moodHistory := appendEntry moodEntry (moodHistory s),
               currentInput := [],
               toasts := toasts s @
                 [ToastMoodDetected (analysis_mood analysis) (analysis_confidence analysis)],
               isAnalyzing := False\<rparr>
      | _ \<Rightarrow>
          s\<lparr>toasts := toasts s @ [ToastError ''Failed to analyze mood. Please try again.''],
            consoleErrors := consoleErrors s @ [''Mood analysis error:''],
            isAnalyzing := False\<rparr>)"

text \<open>The whole call, for a gateway that answers before anything else happens.\<close>

definition analyzeMood ::
  "string \<Rightarrow> input_method \<Rightarrow> int \<Rightarrow> int \<Rightarrow> analysis parsed gateway \<Rightarrow> app_state \<Rightarrow> app_state" where
  "analyzeMood input method idNow tsNow reply s =
     (case analyzeMood_begin input s of
        (Awaiting _, s') \<Rightarrow> analyzeMood_complete input method idNow tsNow reply s'
      | (_, s') \<Rightarrow> s')"

subsection \<open>\<^verbatim>\<open>generatePersonalizedContent\<close>\<close>

text \<open>The body is used as text, without \<^verbatim>\<open>JSON.parse\<close>.\<close>

definition generatePersonalizedContent_complete ::
  "MoodEntry \<Rightarrow> string gateway \<Rightarrow> app_state \<Rightarrow> app_state" where
  "generatePersonalizedContent_complete moodEntry reply s =
     (case reply of
        Resolved body \<Rightarrow>
          s\<lparr>currentMood := map_option (\<lambda>current. current\<lparr>content := Some body\<rparr>) (currentMood s),
            moodHistory := map (\<lambda>entry.
              if entry_id entry = entry_id moodEntry then entry\<lparr>content := Some body\<rparr> else entry)
              (moodHistory s)\<rparr>
      | Rejected \<Rightarrow> s\<lparr>consoleErrors := consoleErrors s @ [''Content generation error:'']\<rparr>)"

subsection \<open>\<^verbatim>\<open>generateWeeklySummary\<close>\<close>

text \<open>
  Up to the \<^verbatim>\<open>await\<close> the handler reads the clock, filters the history of its closure
  into the week and computes the aggregates; the draft is the summary without the
  gateway's two fields. \<open>Returned\<close> is the \<^verbatim>\<open>return\<close> on fewer than three entries,
  \<open>Thrown\<close> an exception inside \<^verbatim>\<open>try\<close>.
\<close>

definition generateWeeklySummary_begin ::
  "int \<Rightarrow> int \<Rightarrow> MoodEntry list \<Rightarrow> WeeklySummary started" where
  "generateWeeklySummary_begin tz now history =
     (let weekStart' = getWeekStart tz (now - 7 * 24 * 60 * 60 * 1000);
          weekEnd' = weekStart' + 7 * 24 * 60 * 60 * 1000;
          weekEntries = filter (\<lambda>entry.
            timestamp entry \<ge> weekStart' \<and> timestamp entry < weekEnd') history
      in if length weekEntries < 3 then Returned
         else
           let distribution = frequencyOf weekEntries
           in case computeDominantMood distribution of
                None \<Rightarrow> Thrown
              | Some dominant \<Rightarrow>
                  Awaiting
                    \<lparr>weekStart = weekStart', weekEnd = weekEnd', entries = weekEntries,
                     dominantMood = dominant, moodDistribution = distribution,
                     averageConfidence =
                       sum_list (map confidence weekEntries) / real (length weekEntries),
                     insights = [], recommendations = []\<rparr>)"

definition generateWeeklySummary_complete ::
  "WeeklySummary \<Rightarrow> summary_analysis parsed gateway \<Rightarrow> app_state \<Rightarrow> app_state" where
  "generateWeeklySummary_complete draft reply s =
     (case reply of
        Resolved (JsonValue analysis) \<Rightarrow>
          let summary = draft\<lparr>insights := analysis_insights analysis,
                              recommendations := analysis_recommendations analysis\<rparr>
          in s\<lparr>weeklySummaries := take 12 (summary # weeklySummaries s),
               toasts := toasts s @ [ToastSuccess ''Weekly summary generated!'']\<rparr>
      | _ \<Rightarrow> s\<lparr>consoleErrors := consoleErrors s @ [''Weekly summary generation error:'']\<rparr>)"

definition generateWeeklySummary ::
  "int \<Rightarrow> int \<Rightarrow> summary_analysis parsed gateway \<Rightarrow> app_state \<Rightarrow> app_state" where
  "generateWeeklySummary tz now reply s =
     (case generateWeeklySummary_begin tz now (moodHistory s) of
        Returned \<Rightarrow> s
      | Thrown \<Rightarrow> s\<lparr>consoleErrors := consoleErrors s @ [''Weekly summary generation error:'']\<rparr>
      | Awaiting draft \<Rightarrow> generateWeeklySummary_complete draft reply s)"

text \<open>The condition of the effect that runs when \<^verbatim>\<open>moodHistory\<close> changes.\<close>

definition weeklySummaryDue :: "int \<Rightarrow> int \<Rightarrow> app_state \<Rightarrow> bool" where
  "weeklySummaryDue tz now s =
     (let currentWeekStart = getWeekStart tz now
      in length (moodHistory s) \<ge> 3 \<and>
         (case weeklySummaries s of
            [] \<Rightarrow> True
          | lastSummary # _ \<Rightarrow>
              weekStart lastSummary < currentWeekStart - 7 * 24 * 60 * 60 * 1000))"

subsection \<open>\<^verbatim>\<open>generatePatternInsights\<close>\<close>

text \<open>What the prompt is built from: the 20 newest entries and their mood counts.\<close>

record insight_request =
  recentEntries :: "(string \<times> int \<times> string) list"
  moodCounts :: "(string \<times> nat) list"

definition generatePatternInsights_begin :: "app_state \<Rightarrow> insight_request started \<times> app_state" where
  "generatePatternInsights_begin s =
     (if isGeneratingInsights s then (Returned, s)
      else
        let recent = take 20 (moodHistory s)
        in (Awaiting
              \<lparr>recentEntries = map (\<lambda>e. (mood e, timestamp e, take 100 (entry_text e))) recent,
               moodCounts = frequencyOf recent\<rparr>,
            s\<lparr>isGeneratingInsights := True\<rparr>))"

definition generatePatternInsights_complete ::
  "insights_json parsed gateway \<Rightarrow> app_state \<Rightarrow> app_state" where
  "generatePatternInsights_complete reply s =
     (case reply of
        Resolved (JsonValue (InsightArray found)) \<Rightarrow>
          s\<lparr>patternInsights := found, isGeneratingInsights := False\<rparr>
      | Resolved (JsonValue NotArray) \<Rightarrow>
          s\<lparr>consoleErrors := consoleErrors s @ [''Invalid insights format received:''],
            patternInsights := [], isGeneratingInsights := False\<rparr>
      | Resolved JsonNull \<Rightarrow>
          s\<lparr>consoleErrors := consoleErrors s @ [''Invalid insights format received:''],
            patternInsights := [], isGeneratingInsights := False\<rparr>
      | _ \<Rightarrow>
          s\<lparr>consoleErrors := consoleErrors s @ [''Pattern insights generation error:''],
            patternInsights := [], isGeneratingInsights := False\<rparr>)"

section \<open>The application as a transition system\<close>

text \<open>
  The state of the component together with the requests that are under way: the drafts
  of the weekly summaries whose answer is awaited, and the number of pattern-insight
  requests whose answer is awaited. An event is a call of a handler by the user or by
  an effect, or an answer of the gateway; a handler runs with the state that the events
  before it left. Clock readings and answers are inputs. The effects are events of their
  own, free to occur at any point: the order in which React runs them after a change is
  one of the orders covered.
\<close>

record system =
  ui :: app_state
  pendingSummaries :: "WeeklySummary list"
  outstandingInsights :: nat

datatype event =
    AnalyzeSubmit string
  | AnalyzeReply string input_method int int "analysis parsed gateway"
  | ContentReply MoodEntry "string gateway"
  | SummaryEffect int int
  | SummaryClick int
  | SummaryReply nat "summary_analysis parsed gateway"
  | SummaryAuto int int "summary_analysis parsed gateway"
  | InsightEffect
  | InsightClick
  | InsightReply "insights_json parsed gateway"

definition initialSystem :: system where
  "initialSystem = \<lparr>ui = initialState, pendingSummaries = [], outstandingInsights = 0\<rparr>"

definition summaryStart :: "int \<Rightarrow> int \<Rightarrow> system \<Rightarrow> system" where
  "summaryStart tz now sys =
     (case generateWeeklySummary_begin tz now (moodHistory (ui sys)) of
        Returned \<Rightarrow> sys
      | Thrown \<Rightarrow>
          sys\<lparr>ui := (ui sys)\<lparr>consoleErrors :=
            consoleErrors (ui sys) @ [''Weekly summary generation error:'']\<rparr>\<rparr>
      | Awaiting draft \<Rightarrow> sys\<lparr>pendingSummaries := pendingSummaries sys @ [draft]\<rparr>)"

definition insightStart :: "system \<Rightarrow> system" where
  "insightStart sys =
     (case generatePatternInsights_begin (ui sys) of
        (Awaiting _, s') \<Rightarrow> sys\<lparr>ui := s', outstandingInsights := Suc (outstandingInsights sys)\<rparr>
      | (_, s') \<Rightarrow> sys\<lparr>ui := s'\<rparr>)"

text \<open>
  \<open>SummaryEffect now1 now2\<close> is the effect on \<^verbatim>\<open>moodHistory\<close>: it reads the clock for its
  condition and the generator reads it again. \<open>SummaryClick\<close> is the button
  "Generate This Week", disabled under three entries. \<open>SummaryReply k\<close> answers the
  request number \<open>k\<close> under way. \<open>SummaryAuto now1 now2 reply\<close> is the effect together
  with its answer, nothing happening in between. \<open>InsightEffect\<close> is the effect on
  \<^verbatim>\<open>moodHistory.length\<close>, \<open>InsightClick\<close> either button of the patterns tab, which are
  rendered from five entries on. A call with a blank input asks the gateway nothing, so
  \<open>AnalyzeReply\<close> with a blank input changes nothing, and neither does an answer when no
  request is under way.
\<close>

fun step :: "int \<Rightarrow> event \<Rightarrow> system \<Rightarrow> system" where
  "step tz (AnalyzeSubmit input) sys = sys\<lparr>ui := snd (analyzeMood_begin input (ui sys))\<rparr>"
| "step tz (AnalyzeReply input method idNow tsNow reply) sys =
     (if isBlank input then sys
      else sys\<lparr>ui := analyzeMood_complete input method idNow tsNow reply (ui sys)\<rparr>)"
| "step tz (ContentReply moodEntry reply) sys =
     sys\<lparr>ui := generatePersonalizedContent_complete moodEntry reply (ui sys)\<rparr>"
| "step tz (SummaryEffect now1 now2) sys =
     (if weeklySummaryDue tz now1 (ui sys) then summaryStart tz now2 sys else sys)"
| "step tz (SummaryClick now) sys =
     (if length (moodHistory (ui sys)) < 3 then sys else summaryStart tz now sys)"
| "step tz (SummaryReply k reply) sys =
     (if k < length (pendingSummaries sys)
      then sys\<lparr>ui := generateWeeklySummary_complete (pendingSummaries sys ! k) reply (ui sys),
               pendingSummaries :=
                 take k (pendingSummaries sys) @ drop (Suc k) (pendingSummaries sys)\<rparr>
      else sys)"
| "step tz (SummaryAuto now1 now2 reply) sys =
     (if weeklySummaryDue tz now1 (ui sys)
      then sys\<lparr>ui := generateWeeklySummary tz now2 reply (ui sys)\<rparr> else sys)"
| "step tz InsightEffect sys =
     (if length (moodHistory (ui sys)) \<ge> 5 then insightStart sys else sys)"
| "step tz InsightClick sys =
     (if length (moodHistory (ui sys)) \<ge> 5 then insightStart sys else sys)"
| "step tz (InsightReply reply) sys =
     (if outstandingInsights sys = 0 then sys
      else sys\<lparr>ui := generatePatternInsights_complete reply (ui sys),
               outstandingInsights := outstandingInsights sys - 1\<rparr>)"

definition run :: "int \<Rightarrow> event list \<Rightarrow> system \<Rightarrow> system" where
  "run tz evs sys = foldl (\<lambda>sys' ev. step tz ev sys') sys evs"

text \<open>
  The runs in which weekly summaries come from the effect alone: no click on the button,
  and each generation of the effect answered at once, its generator reading the clock
  not before the effect did and on the same local day.
\<close>

definition sameLocalDay :: "int \<Rightarrow> int \<Rightarrow> int \<Rightarrow> bool" where
  "sameLocalDay tz a b = ((a + tz) div msPerDay = (b + tz) div msPerDay)"


section \<open>Invariants and sample runs\<close>




text \<open>
  The entry that an event records: a successful classification of an input that is not
  blank creates one entry, every other event none. \<open>withoutContent\<close> forgets the
  supportive text attached to the entries, the one field that changes after creation.
\<close>

fun recorded :: "event \<Rightarrow> MoodEntry list" where
  "recorded (AnalyzeReply input method idNow tsNow (Resolved (JsonValue a))) =
     (if isBlank input then []
      else [\<lparr>entry_id = toString idNow, timestamp = tsNow, entry_text = input,
             mood = analysis_mood a, confidence = analysis_confidence a,
             content = None, inputMethod = method\<rparr>])"
| "recorded ev = []"

definition withoutContent :: "MoodEntry list \<Rightarrow> MoodEntry list" where
  "withoutContent es = map (\<lambda>e. e\<lparr>content := None\<rparr>) es"

text \<open>
  Sample inputs, in the zone UTC. \<open>classified t m\<close> is a successful classification with
  mood \<open>m\<close> answered at the instant \<open>t\<close>. \<open>firstWeek\<close> records three entries on 2, 3 and
  4 January 2024 at 12:00, \<open>secondWeek\<close> three on 9, 10 and 11 January at 12:00.
  \<open>twoClicks\<close> then has the button clicked on Monday 8 January at 10:00 and on Tuesday
  9 January at 10:00, each click answered. \<open>twoWeeks\<close> has the effect generate on Monday
  8 January at 10:00 and, after the second week's entries, on Monday 15 January at 10:00,
  the generator reading the clock one millisecond after the effect.
  \<open>fiveEntries\<close> records five entries and lets the effect on the length run.
\<close>

definition classified :: "int \<Rightarrow> string \<Rightarrow> event" where
  "classified t m =
     AnalyzeReply ''note'' Text t t
       (Resolved (JsonValue \<lparr>analysis_mood = m, analysis_confidence = 90\<rparr>))"

definition summaryAnswer :: "summary_analysis parsed gateway" where
  "summaryAnswer =
     Resolved (JsonValue \<lparr>analysis_insights = [''steady''], analysis_recommendations = [''rest'']\<rparr>)"

definition firstWeek :: "event list" where
  "firstWeek =
     [classified 1704196800000 ''calm'', classified 1704283200000 ''happy'',
      classified 1704369600000 ''calm'']"

definition secondWeek :: "event list" where
  "secondWeek =
     [classified 1704801600000 ''sad'', classified 1704888000000 ''calm'',
      classified 1704974400000 ''happy'']"

definition twoClicks :: "event list" where
  "twoClicks =
     firstWeek @
     [SummaryClick 1704708000000, SummaryReply 0 summaryAnswer,
      SummaryClick 1704794400000, SummaryReply 0 summaryAnswer]"

definition twoWeeks :: "event list" where
  "twoWeeks =
     firstWeek @ [SummaryAuto 1704708000000 1704708000000 summaryAnswer] @
     secondWeek @ [SummaryAuto 1705312800000 1705312800001 summaryAnswer]"

definition fiveEntries :: "event list" where
  "fiveEntries = firstWeek @ [classified 1704456000000 ''excited'',
     classified 1704542400000 ''motivated'', InsightEffect]"

section \<open>Properties\<close>

subsection \<open>Entry store\<close>

lemma take_append_take: "take n (xs @ take n ys) = take n (xs @ ys)"
  by (simp add: min_def)

lemma appendAll_take:
  "length current \<le> 50 \<Longrightarrow> appendAll new current = take 50 (rev new @ current)"
proof (induction new arbitrary: current)
  case Nil
  then show ?case by (simp add: appendAll_def)
next
  case (Cons e new)
  have "appendAll (e # new) current = appendAll new (appendEntry e current)"
    by (simp add: appendAll_def)
  also have "\<dots> = take 50 (rev new @ appendEntry e current)"
    by (rule Cons.IH) (simp add: appendEntry_def)
  also have "\<dots> = take 50 (rev (e # new) @ current)"
    using take_append_take [of 50 "rev new" "e # current"] by (simp add: appendEntry_def)
  finally show ?case .
qed

lemma appendEntry_Cons: "appendEntry e current = e # take 49 current"
  by (simp add: appendEntry_def take_Cons')

lemma analyzeMood_complete_history:
  "moodHistory (analyzeMood_complete input method idNow tsNow reply s) =
     (case reply of
        Resolved (JsonValue a) \<Rightarrow>
          appendEntry \<lparr>entry_id = toString idNow, timestamp = tsNow, entry_text = input,
             mood = analysis_mood a, confidence = analysis_confidence a,
             content = None, inputMethod = method\<rparr> (moodHistory s)
      | _ \<Rightarrow> moodHistory s)"
  by (simp add: analyzeMood_complete_def Let_def split: gateway.splits parsed.splits)

lemma step_history_bounded:
  "length (moodHistory (ui sys)) \<le> 50 \<Longrightarrow> length (moodHistory (ui (step tz ev sys))) \<le> 50"
  by (cases ev)
    (auto simp: analyzeMood_begin_def analyzeMood_complete_history appendEntry_def
      generatePersonalizedContent_complete_def summaryStart_def insightStart_def
      generateWeeklySummary_complete_def generateWeeklySummary_def
      generatePatternInsights_begin_def generatePatternInsights_complete_def Let_def
      split: gateway.splits parsed.splits started.splits insights_json.splits prod.splits
        if_splits)

lemma run_history_bounded:
  "length (moodHistory (ui sys)) \<le> 50 \<Longrightarrow> length (moodHistory (ui (run tz evs sys))) \<le> 50"
  unfolding run_def
  by (induction evs arbitrary: sys) (simp_all add: step_history_bounded)

lemma others_keep_history:
  "moodHistory (snd (analyzeMood_begin input s)) = moodHistory s"
  "moodHistory (generateWeeklySummary_complete d r3 s) = moodHistory s"
  "moodHistory (generateWeeklySummary tz now r3 s) = moodHistory s"
  "moodHistory (snd (generatePatternInsights_begin s)) = moodHistory s"
  "moodHistory (generatePatternInsights_complete r4 s) = moodHistory s"
  by (simp_all add: analyzeMood_begin_def generateWeeklySummary_complete_def
      generateWeeklySummary_def generatePatternInsights_begin_def
      generatePatternInsights_complete_def Let_def
      split: gateway.splits parsed.splits started.splits insights_json.splits)

lemma summaryStart_keeps_history:
  "moodHistory (ui (summaryStart tz now sys)) = moodHistory (ui sys)"
  by (simp add: summaryStart_def split: started.splits)

lemma insightStart_keeps_history:
  "moodHistory (ui (insightStart sys)) = moodHistory (ui sys)"
  using others_keep_history(4) [of "ui sys"]
  by (auto simp: insightStart_def split: prod.splits started.splits)

lemma content_keeps_entries:
  "withoutContent (moodHistory (generatePersonalizedContent_complete e r s)) =
     withoutContent (moodHistory s)"
  by (cases r) (simp_all add: generatePersonalizedContent_complete_def withoutContent_def)

lemma step_recorded:
  assumes "length (moodHistory (ui sys)) \<le> 50"
  shows "withoutContent (moodHistory (ui (step tz ev sys))) =
           take 50 (rev (recorded ev) @ withoutContent (moodHistory (ui sys)))"
proof -
  have same: "withoutContent (moodHistory (ui sys)) =
      take 50 (withoutContent (moodHistory (ui sys)))"
    using assms by (simp add: withoutContent_def)
  show ?thesis
  proof (cases ev)
    case (AnalyzeReply input via idNow tsNow reply)
    show ?thesis
    proof (cases "\<exists>a. reply = Resolved (JsonValue a)")
      case True
      then obtain a where "reply = Resolved (JsonValue a)" by blast
      then show ?thesis
        using AnalyzeReply same
        by (simp add: analyzeMood_complete_history appendEntry_def withoutContent_def take_map)
    next
      case False
      then have "recorded ev = []"
        using AnalyzeReply by (cases reply; cases "case reply of Resolved b \<Rightarrow> b") auto
      moreover have "moodHistory (analyzeMood_complete input via idNow tsNow reply (ui sys)) =
          moodHistory (ui sys)"
        using False by (auto simp: analyzeMood_complete_history split: gateway.splits parsed.splits)
      ultimately show ?thesis
        using AnalyzeReply same by simp
    qed
  next
    case (ContentReply moodEntry reply)
    then show ?thesis using same by (simp add: content_keeps_entries)
  next
    case (SummaryReply k reply)
    then show ?thesis using same by (simp add: others_keep_history)
  qed (use same in \<open>simp_all add: others_keep_history summaryStart_keeps_history
        insightStart_keeps_history\<close>)
qed

lemma run_recorded:
  "length (moodHistory (ui sys)) \<le> 50 \<Longrightarrow>
   withoutContent (moodHistory (ui (run tz evs sys))) =
     take 50 (rev (concat (map recorded evs)) @ withoutContent (moodHistory (ui sys)))"
proof (induction evs arbitrary: sys)
  case Nil
  then show ?case by (simp add: run_def withoutContent_def)
next
  case (Cons ev evs)
  have "run tz (ev # evs) sys = run tz evs (step tz ev sys)"
    by (simp add: run_def)
  then have "withoutContent (moodHistory (ui (run tz (ev # evs) sys))) =
      take 50 (rev (concat (map recorded evs)) @
        withoutContent (moodHistory (ui (step tz ev sys))))"
    using Cons.IH [of "step tz ev sys"] step_history_bounded [OF Cons.prems] by simp
  also have "\<dots> = take 50 (rev (concat (map recorded evs)) @
      rev (recorded ev) @ withoutContent (moodHistory (ui sys)))"
    by (simp only: step_recorded [OF Cons.prems] take_append_take)
  finally show ?case by simp
qed

text \<open>
  Claim C1. The mood history never holds more than 50 entries and is newest first. After
  any sequence of appends to the empty store the history is the appended entries in
  reverse order of arrival, cut to the 50 most recent; one append puts the new entry
  at index 0 and keeps the first 49 of the old entries in their order, so the oldest is
  the one evicted; this append is what a successful classification does to the history.
  In every run of the application from its initial state the history holds at most 50
  entries, and it is, up to the supportive text attached later, the list of the entries
  recorded so far, newest first, cut to the 50 most recent.
\<close>

theorem entry_store_bounded_newest_first:
  "length (appendAll new []) \<le> 50
   \<and> appendAll new [] = take 50 (rev new)
   \<and> appendEntry e current = e # take 49 current
   \<and> moodHistory (analyzeMood_complete input method idNow tsNow (Resolved (JsonValue a)) s) =
       appendEntry
         \<lparr>entry_id = toString idNow, timestamp = tsNow, entry_text = input,
          mood = analysis_mood a, confidence = analysis_confidence a,
          content = None, inputMethod = method\<rparr> (moodHistory s)
   \<and> length (moodHistory (ui (run tz evs initialSystem))) \<le> 50
   \<and> withoutContent (moodHistory (ui (run tz evs initialSystem))) =
       take 50 (rev (concat (map recorded evs)))"
proof -
  have all: "appendAll new [] = take 50 (rev new)"
    using appendAll_take [of "[]" new] by simp
  have start: "length (moodHistory (ui initialSystem)) \<le> 50"
    by (simp add: initialSystem_def initialState_def)
  have run: "length (moodHistory (ui (run tz evs initialSystem))) \<le> 50"
    using start by (rule run_history_bounded)
  have "withoutContent (moodHistory (ui initialSystem)) = []"
    by (simp add: withoutContent_def initialSystem_def initialState_def)
  with run_recorded [OF start, of tz evs]
  have order: "withoutContent (moodHistory (ui (run tz evs initialSystem))) =
       take 50 (rev (concat (map recorded evs)))"
    by simp
  show ?thesis
    by (simp add: all run order appendEntry_Cons analyzeMood_complete_history)
qed

subsection \<open>Trend\<close>

lemma positive_window_card:
  "card {i. i < 5 \<and> i < length h \<and> P (h ! i)} = length (filter P (take 5 h))"
proof -
  have "{i. i < 5 \<and> i < length h \<and> P (h ! i)} = {i. i < length (take 5 h) \<and> P (take 5 h ! i)}"
    by auto
  then show ?thesis
    by (simp only: length_filter_conv_card)
qed

text \<open>
  Claim C6. \<^verbatim>\<open>getMoodTrend\<close> returns nothing for a history of fewer than 2 entries.
  Otherwise it counts, among the entries at the indices below 5 of the newest-first
  history, those whose mood is happy, excited, calm or motivated, and returns positive
  for a count of 3 or more, concerning for a count of 1 or less, and mixed otherwise.
  Five entries with the moods happy, excited, calm, motivated, sad give positive.
\<close>

theorem getMoodTrend_window:
  "getMoodTrend h =
     (if length h < 2 then None
      else Some (
        if 3 \<le> card {i. i < 5 \<and> i < length h \<and>
               mood (h ! i) \<in> {''happy'', ''excited'', ''calm'', ''motivated''}} then Positive
        else if card {i. i < 5 \<and> i < length h \<and>
               mood (h ! i) \<in> {''happy'', ''excited'', ''calm'', ''motivated''}} \<le> 1
        then Concerning
        else Mixed))
   \<and> getMoodTrend [e1\<lparr>mood := ''happy''\<rparr>, e2\<lparr>mood := ''excited''\<rparr>, e3\<lparr>mood := ''calm''\<rparr>,
         e4\<lparr>mood := ''motivated''\<rparr>, e5\<lparr>mood := ''sad''\<rparr>] = Some Positive"
proof -
  have ex: "getMoodTrend [e1\<lparr>mood := ''happy''\<rparr>, e2\<lparr>mood := ''excited''\<rparr>, e3\<lparr>mood := ''calm''\<rparr>,
         e4\<lparr>mood := ''motivated''\<rparr>, e5\<lparr>mood := ''sad''\<rparr>] = Some Positive"
    by (simp add: getMoodTrend_def)
  have c: "card {i. i < 5 \<and> i < length h \<and>
               mood (h ! i) \<in> {''happy'', ''excited'', ''calm'', ''motivated''}} =
        length (filter (\<lambda>entry. mood entry \<in> set [''happy'', ''excited'', ''calm'', ''motivated''])
          (take 5 h))"
    using positive_window_card [of h "\<lambda>e. mood e \<in> {''happy'', ''excited'', ''calm'', ''motivated''}"]
    by simp
  show ?thesis
    by (rule conjI [OF _ ex]) (simp only: c getMoodTrend_def Let_def)
qed

subsection \<open>Classification\<close>

text \<open>
  Claim C8. When the classification fails, that is when the gateway rejects or the body
  does not parse to a value, the continuation of \<^verbatim>\<open>analyzeMood\<close> shows the error toast,
  logs, clears the busy flag and changes nothing else: no entry is recorded and the mood
  history is what it was, for the continuation alone and for the whole call.
\<close>

theorem classification_failure_records_nothing:
  assumes "\<And>a. reply \<noteq> Resolved (JsonValue a)"
  shows "analyzeMood_complete input method idNow tsNow reply s =
           s\<lparr>toasts := toasts s @ [ToastError ''Failed to analyze mood. Please try again.''],
             consoleErrors := consoleErrors s @ [''Mood analysis error:''],
             isAnalyzing := False\<rparr>
         \<and> moodHistory (analyzeMood_complete input method idNow tsNow reply s) = moodHistory s
         \<and> moodHistory (analyzeMood input method idNow tsNow reply s) = moodHistory s
         \<and> toasts (analyzeMood input method idNow tsNow reply s) =
             toasts s @ [ToastError (if isBlank input then ''Please enter some text to analyze''
                                     else ''Failed to analyze mood. Please try again.'')]"
  using assms
  by (cases reply; cases "isBlank input")
     (auto simp: analyzeMood_def analyzeMood_begin_def analyzeMood_complete_def
        split: parsed.splits)

theorem classification_failure_records_nothing_witness:
  "moodHistory (analyzeMood ''hello'' Text 5 5 Rejected initialState) = []
   \<and> toasts (analyzeMood ''hello'' Text 5 5 Rejected initialState) =
       [ToastError ''Failed to analyze mood. Please try again.'']
   \<and> moodHistory (analyzeMood_complete ''hello'' Text 5 5 (Resolved SyntaxError) initialState) = []"
proof -
  have r: "\<And>a. (Rejected :: analysis parsed gateway) \<noteq> Resolved (JsonValue a)" by simp
  have p: "\<And>a. (Resolved SyntaxError :: analysis parsed gateway) \<noteq> Resolved (JsonValue a)"
    by simp
  have b: "\<not> isBlank ''hello''" by (simp add: isBlank_def isWhiteSpace_def)
  show ?thesis
    using classification_failure_records_nothing [OF r, of "''hello''" Text 5 5 initialState]
      classification_failure_records_nothing [OF p, of "''hello''" Text 5 5 initialState] b
    by (simp add: initialState_def)
qed

text \<open>
  Claim C10. On a successful classification the entry put at index 0 of the history, which
  is also the current mood, carries the mood and the confidence of the parsed answer as
  they are, whatever string and whatever number they are: nothing checks the mood against
  the eight labels or the confidence against the range 0 to 100. The mood \<open>banana\<close> with
  confidence 250 is recorded.
\<close>

theorem classification_recorded_unvalidated:
  "moodHistory (analyzeMood_complete input method idNow tsNow (Resolved (JsonValue a)) s) ! 0 =
     \<lparr>entry_id = toString idNow, timestamp = tsNow, entry_text = input,
      mood = analysis_mood a, confidence = analysis_confidence a,
      content = None, inputMethod = method\<rparr>
   \<and> mood (hd (moodHistory (analyzeMood_complete input method idNow tsNow
         (Resolved (JsonValue a)) s))) = analysis_mood a
   \<and> confidence (hd (moodHistory (analyzeMood_complete input method idNow tsNow
         (Resolved (JsonValue a)) s))) = analysis_confidence a
   \<and> currentMood (analyzeMood_complete input method idNow tsNow (Resolved (JsonValue a)) s) =
       Some \<lparr>entry_id = toString idNow, timestamp = tsNow, entry_text = input,
         mood = analysis_mood a, confidence = analysis_confidence a,
         content = None, inputMethod = method\<rparr>
   \<and> map (\<lambda>e. (mood e, confidence e))
         (moodHistory (analyzeMood ''I aced my exam today!'' Text 7 7
           (Resolved (JsonValue \<lparr>analysis_mood = ''banana'', analysis_confidence = 250\<rparr>))
           initialState)) = [(''banana'', 250)]"
  by (simp add: analyzeMood_def analyzeMood_begin_def analyzeMood_complete_def appendEntry_def
      Let_def isBlank_def isWhiteSpace_def initialState_def)

subsection \<open>Failures of the enrichments\<close>

text \<open>
  Claim C4, as stated, fails for the pattern insights: a failed generation empties the
  insight set that was there.
\<close>

theorem pattern_failure_clears_insights:
  "patternInsights (generatePatternInsights_complete Rejected
      (initialState\<lparr>patternInsights :=
         [\<lparr>pattern = ''evening calm'', frequency = 40, description = ''calm in the evening'',
           recommendation = ''keep the routine'', timeframe = ''evenings''\<rparr>]\<rparr>))
   \<noteq> patternInsights
      (initialState\<lparr>patternInsights :=
         [\<lparr>pattern = ''evening calm'', frequency = 40, description = ''calm in the evening'',
           recommendation = ''keep the routine'', timeframe = ''evenings''\<rparr>]\<rparr>)"
  by (simp add: generatePatternInsights_complete_def)

lemma generateWeeklySummary_failure:
  "reply = Rejected \<or> reply = Resolved SyntaxError \<or> reply = Resolved JsonNull \<Longrightarrow>
   generateWeeklySummary tz now reply s = s \<or>
   generateWeeklySummary tz now reply s =
     s\<lparr>consoleErrors := consoleErrors s @ [''Weekly summary generation error:'']\<rparr>"
  by (auto simp: generateWeeklySummary_def generateWeeklySummary_complete_def
      split: started.splits)

text \<open>
  Claim C4, amended. A failed supportive-content generation and a failed weekly-summary
  generation (the gateway rejects, or the body does not parse, or parses to null) are
  caught and logged and change nothing else. A failed pattern-insight generation (the
  gateway rejects or the body does not parse) is caught and logged and leaves the mood
  history and the summary store as they were, but it sets the pattern-insight set to
  empty and clears the in-flight flag.
\<close>

theorem enrichment_failure_frame:
  "generatePersonalizedContent_complete moodEntry Rejected s =
     s\<lparr>consoleErrors := consoleErrors s @ [''Content generation error:'']\<rparr>
   \<and> generateWeeklySummary_complete draft Rejected s =
     s\<lparr>consoleErrors := consoleErrors s @ [''Weekly summary generation error:'']\<rparr>
   \<and> generateWeeklySummary_complete draft (Resolved SyntaxError) s =
     s\<lparr>consoleErrors := consoleErrors s @ [''Weekly summary generation error:'']\<rparr>
   \<and> generateWeeklySummary_complete draft (Resolved JsonNull) s =
     s\<lparr>consoleErrors := consoleErrors s @ [''Weekly summary generation error:'']\<rparr>
   \<and> generatePatternInsights_complete Rejected s =
     s\<lparr>consoleErrors := consoleErrors s @ [''Pattern insights generation error:''],
       patternInsights := [], isGeneratingInsights := False\<rparr>
   \<and> generatePatternInsights_complete (Resolved SyntaxError) s =
     s\<lparr>consoleErrors := consoleErrors s @ [''Pattern insights generation error:''],
       patternInsights := [], isGeneratingInsights := False\<rparr>
   \<and> moodHistory (generatePatternInsights_complete Rejected s) = moodHistory s
   \<and> weeklySummaries (generatePatternInsights_complete Rejected s) = weeklySummaries s
   \<and> moodHistory (generatePatternInsights_complete (Resolved SyntaxError) s) = moodHistory s
   \<and> weeklySummaries (generatePatternInsights_complete (Resolved SyntaxError) s) =
       weeklySummaries s"
  by (simp add: generatePersonalizedContent_complete_def generateWeeklySummary_complete_def
      generatePatternInsights_complete_def)

subsection \<open>Dominant mood\<close>










subsection \<open>Week start\<close>

lemma getDay_range: "0 \<le> getDay tz t \<and> getDay tz t < 7"
  by (simp add: getDay_def)

lemma getDay_shift_days: "getDay tz (t - k * msPerDay) = (getDay tz t - k) mod 7"
proof -
  have "(t - k * msPerDay + tz) div msPerDay = (t + tz) div msPerDay - k"
  proof -
    have "t - k * msPerDay + tz = (t + tz) + (- k) * msPerDay" by (simp add: algebra_simps)
    then show ?thesis by (simp add: msPerDay_def)
  qed
  moreover have
    "((t + tz) div msPerDay - k + 4) mod 7 = (((t + tz) div msPerDay + 4) mod 7 - k) mod 7"
  proof -
    have "(t + tz) div msPerDay - k + 4 = ((t + tz) div msPerDay + 4) - k" by simp
    then show ?thesis by (simp only: mod_diff_left_eq)
  qed
  ultimately show ?thesis
    by (simp only: getDay_def)
qed

text \<open>
  What \<^const>\<open>getWeekStart\<close> does: its result falls on a Sunday, at most six days before
  the instant given, at the local time of day of that instant.
\<close>

lemma getWeekStart_sunday: "getDay tz (getWeekStart tz t) = 0"
  using getDay_shift_days [of tz t "getDay tz t"] by (simp add: getWeekStart_def)

lemma getWeekStart_recent: "t - 7 * msPerDay < getWeekStart tz t \<and> getWeekStart tz t \<le> t"
  using getDay_range [of tz t] by (simp add: getWeekStart_def msPerDay_def)

lemma getWeekStart_vs_spec:
  "getWeekStart tz t = sundayMidnight_spec tz t + (t + tz) mod msPerDay"
  by (simp add: getWeekStart_def sundayMidnight_spec_def)


text \<open>
  Claim C2 against the code, in the zone UTC. On Wednesday 3 January 2024 at 12:00
  (instant 1704283200000) \<^verbatim>\<open>getWeekStart\<close> gives Sunday 31 December 2023 at 12:00 (instant
  1704024000000), whereas the most recent Sunday at local midnight is 1703980800000. The
  generator called at that instant takes the window from Sunday 24 December 12:00 to
  Sunday 31 December 12:00: of the history with entries on 31 December 06:00,
  28 December, 26 December and 24 December 06:00, the summary holds the first three. The
  entry of 24 December 06:00, which lies in the week before the current one, is left
  out, and the entry of 31 December 06:00, which lies in the current week, is taken.
\<close>

theorem weekStart_keeps_time_of_day:
  "getWeekStart 0 1704283200000 = 1704024000000
   \<and> sundayMidnight_spec 0 1704283200000 = 1703980800000
   \<and> map timestamp (case generateWeeklySummary_begin 0 1704283200000
        [\<lparr>entry_id = ''1704002400000'', timestamp = 1704002400000, entry_text = ''d'',
          mood = ''calm'', confidence = 80, content = None, inputMethod = Text\<rparr>,
         \<lparr>entry_id = ''1703721600000'', timestamp = 1703721600000, entry_text = ''c'',
          mood = ''happy'', confidence = 80, content = None, inputMethod = Text\<rparr>,
         \<lparr>entry_id = ''1703548800000'', timestamp = 1703548800000, entry_text = ''b'',
          mood = ''calm'', confidence = 80, content = None, inputMethod = Text\<rparr>,
         \<lparr>entry_id = ''1703397600000'', timestamp = 1703397600000, entry_text = ''a'',
          mood = ''sad'', confidence = 80, content = None, inputMethod = Text\<rparr>]
       of Awaiting draft \<Rightarrow> entries draft | _ \<Rightarrow> [])
     = [1704002400000, 1703721600000, 1703548800000]"
  by (simp add: getWeekStart_def getDay_def msPerDay_def sundayMidnight_spec_def
      generateWeeklySummary_begin_def frequencyOf_def computeDominantMood_def objectEntries_def
      isArrayIndex_def isDigit_def decimalValue_def Let_def)

subsection \<open>Evaluating the sample runs\<close>

lemmas eval_defs =
  analyzeMood_begin_def analyzeMood_complete_def appendEntry_def
  generatePersonalizedContent_complete_def summaryStart_def insightStart_def
  generateWeeklySummary_begin_def generateWeeklySummary_complete_def generateWeeklySummary_def
  generatePatternInsights_begin_def generatePatternInsights_complete_def weeklySummaryDue_def
  getWeekStart_def getDay_def msPerDay_def sameLocalDay_def frequencyOf_def
  computeDominantMood_def objectEntries_def isArrayIndex_def isDigit_def decimalValue_def
  isBlank_def isWhiteSpace_def toString_def digitsOf.simps initialSystem_def initialState_def
  run_def classified_def summaryAnswer_def firstWeek_def secondWeek_def twoClicks_def
  twoWeeks_def fiveEntries_def Let_def

subsection \<open>Weekly summaries hold at least three entries\<close>


















subsection \<open>Pattern insights are single-flight\<close>












subsection \<open>Week starts of the stored summaries\<close>





lemma summaryStart_keeps_summaries:
  "weeklySummaries (ui (summaryStart tz now sys)) = weeklySummaries (ui sys)"
  by (simp add: summaryStart_def split: started.splits)








text \<open>
  The effect itself summarises one week twice: five minutes after its first generation
  it is due again, because the week start it compares with carries the time of day, and
  it stores a second summary of the same three entries whose week start is five minutes
  later.
\<close>

lemma effect_summarises_week_again:
  "map (\<lambda>w. (weekStart w, map timestamp (entries w)))
     (weeklySummaries (ui (run 0
        (firstWeek @ [SummaryAuto 1704708000000 1704708000000 summaryAnswer,
                      SummaryAuto 1704708300000 1704708300000 summaryAnswer])
        initialSystem)))
   = [(1704017100000, [1704369600000, 1704283200000, 1704196800000]),
      (1704016800000, [1704369600000, 1704283200000, 1704196800000])]"
  by (simp add: eval_defs)

end
